theory Spec2Isabelle
  imports Complex_Main "HOL-Library.Log_Nat"
begin

section \<open>Strings of the host language\<close>

text \<open>
  The program is TypeScript. Its strings are modelled as \<^typ>\<open>string\<close> over the ASCII
  range: \<open>trim\<close> removes the white space and line terminators below code 128 (tab,
  line feed, vertical tab, form feed, carriage return, space) from both ends, and
  \<open>toUpperCase\<close> maps the letters a to z to A to Z and leaves every other character
  as it is.
\<close>

definition isWhiteSpace :: "char \<Rightarrow> bool" where
  "isWhiteSpace c = (c \<in> set [CHR 0x09, CHR 0x0A, CHR 0x0B, CHR 0x0C, CHR 0x0D, CHR 0x20])"

definition trimStart :: "string \<Rightarrow> string" where
  "trimStart s = dropWhile isWhiteSpace s"

definition trimEnd :: "string \<Rightarrow> string" where
  "trimEnd s = rev (dropWhile isWhiteSpace (rev s))"

definition trim :: "string \<Rightarrow> string" where
  "trim s = trimEnd (trimStart s)"







text \<open>A string is blank when it is empty or holds white space only.\<close>

definition blank :: "string \<Rightarrow> bool" where
  "blank s = list_all isWhiteSpace s"

section \<open>Questions and scoring (src/src/App.tsx, lines 11 to 23)\<close>

datatype QuestionType = MultipleChoice | FillInTheBlank

record Question =
  id_q :: string
  question :: "string option"
  chQuestion :: "string option"
  questionType :: QuestionType
  options :: "string list"
  chOptions :: "string list"
  answer :: string
  image_q :: "string option"





section \<open>Persisted state (lib/storage)\<close>

datatype QuizView = Start | Quiz | Result

text \<open>
  Modelled from the spec: the metadata record of lib/storage, which is not among the
  sources. The specification gives it the fields \<open>startedAt\<close>, \<open>submittedAt\<close>, \<open>view\<close>,
  \<open>currentId\<close> and \<open>reviewId\<close>, and lets a missing field be absent; App.tsx reads and
  writes exactly these. Every field is optional here, so the same type also stands for
  the partial records handed to \<open>persistMeta\<close>. Time stamps are milliseconds.
\<close>

record Meta =
  startedAt :: "int option"
  submittedAt :: "int option"
  view_m :: "QuizView option"
  currentId_m :: "string option"
  reviewId_m :: "string option"

text \<open>
  Modelled from the spec: the key-value store behind lib/storage, as one metadata
  record persisted as a unit and one answer text per question id.
\<close>

record Storage =
  meta_s :: Meta
  answers_s :: "string \<rightharpoonup> string"

text \<open>
  Modelled from the spec: \<open>loadMeta\<close> of lib/storage returns the persisted metadata
  record.
\<close>

definition loadMeta :: "Storage \<Rightarrow> Meta" where
  "loadMeta sto = meta_s sto"

text \<open>
  Modelled from the spec: \<open>saveMeta\<close> of lib/storage is a full overwrite of the
  persisted metadata record.
\<close>

definition saveMeta :: "Meta \<Rightarrow> Storage \<Rightarrow> Storage" where
  "saveMeta m sto = sto\<lparr>meta_s := m\<rparr>"

text \<open>
  Modelled from the spec: \<open>getAnswer\<close> of lib/storage returns the stored answer of a
  question id, the empty string when none was stored.
\<close>

definition getAnswer :: "string \<Rightarrow> Storage \<Rightarrow> string" where
  "getAnswer i sto = (case answers_s sto i of None \<Rightarrow> [] | Some v \<Rightarrow> v)"

text \<open>
  Modelled from the spec: \<open>setAnswer\<close> of lib/storage stores the answer of one
  question id.
\<close>

definition setAnswer :: "string \<Rightarrow> string \<Rightarrow> Storage \<Rightarrow> Storage" where
  "setAnswer i v sto = sto\<lparr>answers_s := (answers_s sto)(i \<mapsto> v)\<rparr>"

text \<open>
  Modelled from the spec: \<open>clearAll\<close> of lib/storage resets the answer of every
  listed question id to empty. The metadata record is not written by it.
\<close>

definition clearAll :: "string list \<Rightarrow> Storage \<Rightarrow> Storage" where
  "clearAll ids sto = foldl (\<lambda>s i. setAnswer i [] s) sto ids"

section \<open>The application state (src/src/App.tsx, function App)\<close>

text \<open>
  The state hooks of the component and the persisted store, as one record. \<open>now\<close> is
  the clock reading of the last timer tick. The state of the image modal and the
  error text are presentation only and are left out.
\<close>

record App =
  questions :: "Question list option"
  view :: QuizView
  currentId :: string
  reviewId :: string
  answers :: "string \<rightharpoonup> string"
  now :: int
  storage :: Storage

text \<open>Truthiness of an optional number: absent and 0 are falsy.\<close>

definition truthyNumber :: "int option \<Rightarrow> bool" where
  "truthyNumber v = (case v of None \<Rightarrow> False | Some n \<Rightarrow> n \<noteq> 0)"

text \<open>\<open>answers[id] ?? ''\<close>: the in-memory answer of a question id.\<close>

definition answerOf :: "(string \<rightharpoonup> string) \<Rightarrow> string \<Rightarrow> string" where
  "answerOf m i = (case m i of None \<Rightarrow> [] | Some v \<Rightarrow> v)"

text \<open>
  The expression \<open>stored && qs.some((x) => x.id === stored) ? stored : fallback\<close>,
  which the component writes out for each pointer it resolves.
\<close>

definition resolveId :: "string option \<Rightarrow> Question list \<Rightarrow> string \<Rightarrow> string" where
  "resolveId stored qs fallback =
     (case stored of
        None \<Rightarrow> fallback
      | Some i \<Rightarrow> if i \<noteq> [] \<and> list_ex (\<lambda>x. id_q x = i) qs then i else fallback)"

text \<open>\<open>typeof v === 'number' ? v : Date.now()\<close>, with the clock reading \<open>t\<close>.\<close>

definition numberOr :: "int option \<Rightarrow> int \<Rightarrow> int" where
  "numberOr v t = (case v of None \<Rightarrow> t | Some n \<Rightarrow> n)"

subsection \<open>Initialisation (lines 39 to 66, the handler of the loaded dataset)\<close>

definition initAnswers :: "Question list \<Rightarrow> Storage \<Rightarrow> (string \<rightharpoonup> string)" where
  "initAnswers qs sto = foldl (\<lambda>init q. init(id_q q \<mapsto> getAnswer (id_q q) sto)) Map.empty qs"

definition initialize :: "Question list \<Rightarrow> App \<Rightarrow> App" where
  "initialize qs st =
     (let m = loadMeta (storage st);
          started = startedAt m;
          submitted = submittedAt m;
          desiredView =
            (if view_m m = Some Result \<and> truthyNumber submitted then Result
             else if view_m m = Some Quiz \<and> truthyNumber started then Quiz
             else Start);
          fallbackId = (case qs of [] \<Rightarrow> [] | q # _ \<Rightarrow> id_q q);
          cId = resolveId (currentId_m m) qs fallbackId;
          rId = resolveId (reviewId_m m) qs cId
      in st\<lparr>questions := Some qs, answers := initAnswers qs (storage st),
            view := desiredView, currentId := cId, reviewId := rId\<rparr>)"

subsection \<open>Derived values (lines 75 to 115 and 372)\<close>

definition answeredCount :: "Question list option \<Rightarrow> (string \<rightharpoonup> string) \<Rightarrow> nat" where
  "answeredCount qs' ans =
     (case qs' of
        None \<Rightarrow> 0
      | Some qs \<Rightarrow> foldl (\<lambda>c q. if trim (answerOf ans (id_q q)) \<noteq> [] then c + 1 else c) 0 qs)"

definition elapsedMs :: "int option \<Rightarrow> int option \<Rightarrow> QuizView \<Rightarrow> int \<Rightarrow> int" where
  "elapsedMs started submitted v n =
     (case started of
        None \<Rightarrow> 0
      | Some s \<Rightarrow>
          if s = 0 then 0
          else (case submitted of
                  None \<Rightarrow> max 0 (n - s)
                | Some u \<Rightarrow> if v = Result \<and> u \<noteq> 0 then max 0 (u - s) else max 0 (n - s)))"

text \<open>The elapsed time of a state, from the persisted metadata as it is. (The
  component reads the metadata again whenever the view, a pointer or the number of
  questions changes.)\<close>

definition elapsedMs_of :: "App \<Rightarrow> int" where
  "elapsedMs_of st =
     elapsedMs (startedAt (loadMeta (storage st))) (submittedAt (loadMeta (storage st)))
       (view st) (now st)"


subsection \<open>Writing the metadata (lines 117 to 120)\<close>

text \<open>
  \<open>{ ...base, ...next }\<close>: the fields that \<open>next\<close> holds replace those of \<open>base\<close>. A
  partial record is a \<^typ>\<open>Meta\<close> whose absent keys are \<open>None\<close>.
\<close>

definition orElse :: "'a option \<Rightarrow> 'a option \<Rightarrow> 'a option" where
  "orElse nxt base = (case nxt of None \<Rightarrow> base | Some v \<Rightarrow> Some v)"

definition spread :: "Meta \<Rightarrow> Meta \<Rightarrow> Meta" where
  "spread base nxt =
     \<lparr>startedAt = orElse (startedAt nxt) (startedAt base),
      submittedAt = orElse (submittedAt nxt) (submittedAt base),
      view_m = orElse (view_m nxt) (view_m base),
      currentId_m = orElse (currentId_m nxt) (currentId_m base),
      reviewId_m = orElse (reviewId_m nxt) (reviewId_m base)\<rparr>"

definition noFields :: Meta where
  "noFields = \<lparr>startedAt = None, submittedAt = None, view_m = None,
     currentId_m = None, reviewId_m = None\<rparr>"

definition persistMeta :: "Meta \<Rightarrow> Storage \<Rightarrow> Storage" where
  "persistMeta nxt sto = (let base = loadMeta sto in saveMeta (spread base nxt) sto)"

subsection \<open>The handlers (lines 122 to 196)\<close>

text \<open>
  Each handler takes the state and returns the new one. \<open>Date.now()\<close> is the parameter
  \<open>t\<close>: a handler runs synchronously, and its readings of the clock are taken to be
  one instant. \<open>questions[0].id\<close> on an empty list is a \<open>TypeError\<close>. The answer of the
  user to \<open>window.confirm\<close> is the parameter \<open>ok\<close>, read only when the dialogue is shown.
\<close>

datatype JsError = TypeError

definition emptyAnswers :: "Question list \<Rightarrow> (string \<rightharpoonup> string)" where
  "emptyAnswers qs = foldl (\<lambda>init q. init(id_q q \<mapsto> [])) Map.empty qs"

definition startNew :: "int \<Rightarrow> App \<Rightarrow> JsError + App" where
  "startNew t st =
     (case questions st of
        None \<Rightarrow> Inr st
      | Some qs \<Rightarrow>
          (let cleared = clearAll (map id_q qs) (storage st) in
           case qs of
             [] \<Rightarrow> Inl TypeError
           | q0 # _ \<Rightarrow>
               Inr (st\<lparr>storage :=
                          saveMeta \<lparr>startedAt = Some t, submittedAt = None, view_m = Some Quiz,
                                    currentId_m = Some (id_q q0), reviewId_m = Some (id_q q0)\<rparr>
                            cleared,
                        answers := emptyAnswers qs,
                        currentId := id_q q0,
                        reviewId := id_q q0,
                        view := Quiz\<rparr>)))"

definition continueQuiz :: "int \<Rightarrow> App \<Rightarrow> JsError + App" where
  "continueQuiz t st =
     (case questions st of
        None \<Rightarrow> Inr st
      | Some qs \<Rightarrow>
          (let m = loadMeta (storage st);
               started = numberOr (startedAt m) t in
           case qs of
             [] \<Rightarrow> Inl TypeError
           | q0 # _ \<Rightarrow>
               (let fallback = id_q q0;
                    cId = resolveId (currentId_m m) qs fallback
                in Inr (st\<lparr>storage :=
                             persistMeta
                               (noFields\<lparr>startedAt := Some started, view_m := Some Quiz,
                                  currentId_m := Some cId\<rparr>)
                               (storage st),
                           currentId := cId,
                           view := Quiz\<rparr>))))"


definition updateAnswer :: "string \<Rightarrow> string \<Rightarrow> App \<Rightarrow> App" where
  "updateAnswer i v st =
     st\<lparr>storage := setAnswer i v (storage st), answers := (answers st)(i \<mapsto> v)\<rparr>"



text \<open>
  \<open>submit\<close> also returns the confirmation it showed: \<open>Some n\<close> when the dialogue named
  \<open>n\<close> unanswered questions, \<open>None\<close> when no dialogue was shown.
\<close>

definition submit :: "bool \<Rightarrow> int \<Rightarrow> App \<Rightarrow> nat option \<times> App" where
  "submit ok t st =
     (case questions st of
        None \<Rightarrow> (None, st)
      | Some qs \<Rightarrow>
          (let unanswered = filter (\<lambda>q. trim (answerOf (answers st) (id_q q)) = []) qs;
               shown = (if length unanswered > 0 then Some (length unanswered) else None)
           in if length unanswered > 0 \<and> \<not> ok then (shown, st)
              else
                (let m = loadMeta (storage st);
                     started = numberOr (startedAt m) t;
                     submitted = t
                 in (shown,
                     st\<lparr>storage :=
                          saveMeta
                            (m\<lparr>startedAt := Some started, submittedAt := Some submitted,
                               view_m := Some Result, reviewId_m := Some (currentId st),
                               currentId_m := Some (currentId st)\<rparr>)
                            (storage st),
                        reviewId := currentId st,
                        view := Result\<rparr>))))"

definition clearAnswers :: "bool \<Rightarrow> App \<Rightarrow> App" where
  "clearAnswers ok st =
     (case questions st of
        None \<Rightarrow> st
      | Some qs \<Rightarrow>
          if \<not> ok then st
          else st\<lparr>storage := foldl (\<lambda>s q. setAnswer (id_q q) [] s) (storage st) qs,
                  answers := emptyAnswers qs\<rparr>)"

subsection \<open>The percentage of the result page (line 372)\<close>

text \<open>
  The numbers of the program are IEEE 754 double-precision floats. A finite double is
  modelled by the rational it stands for, and \<open>binary64\<close> rounds a rational to the
  nearest double (53 significant bits, ties to the even significand), for arguments
  in the range of the normal doubles. The quotient and the product of two doubles are
  the exact quotient and product, rounded. \<open>Math.round\<close> gives the nearest integer,
  with ties towards positive infinity.
\<close>

definition roundHalfEven :: "rat \<Rightarrow> int" where
  "roundHalfEven r =
     (let f = \<lfloor>r\<rfloor>; d = r - of_int f in
      if d < 1 / 2 then f else if 1 / 2 < d then f + 1 else if even f then f else f + 1)"

definition pow2 :: "int \<Rightarrow> rat" where
  "pow2 e = (if 0 \<le> e then 2 ^ nat e else 1 / 2 ^ nat (- e))"

text \<open>The binary exponent of a positive rational \<open>q\<close>: the \<open>e\<close> with
  \<open>2 ^ e \<le> q < 2 ^ (e + 1)\<close>.\<close>

definition exponent :: "rat \<Rightarrow> int" where
  "exponent q =
     (case quotient_of q of (n, d) \<Rightarrow>
        (let k = bitlen n - bitlen d in if pow2 k \<le> q then k else k - 1))"

definition binary64 :: "rat \<Rightarrow> rat" where
  "binary64 q =
     (if q = 0 then 0
      else (let a = \<bar>q\<bar>; u = pow2 (exponent a - 52)
            in sgn q * of_int (roundHalfEven (a / u)) * u))"

definition Math_round :: "rat \<Rightarrow> int" where
  "Math_round x = \<lfloor>x + 1 / 2\<rfloor>"

definition percent :: "nat \<times> nat \<Rightarrow> rat" where
  "percent sc =
     (case sc of (correct, total') \<Rightarrow>
        if total' \<noteq> 0
        then binary64
               (of_int (Math_round (binary64 (binary64 (of_nat correct / of_nat total') * 1000)))
                / 10)
        else 0)"

section \<open>The dataset loader (lib/loadDataset)\<close>

text \<open>
  A value of unknown type, as the spreadsheet library and \<open>JSON.parse\<close> hand it to the
  loader: \<open>undefined\<close>, \<open>null\<close>, a string, an array, or any other value (a number, a
  boolean, an object), which is kept as the text that \<open>String(v)\<close> gives for it.
\<close>

datatype JsVal = Undefined | Null | Str string | Arr "JsVal list" | Other string

fun joinComma :: "string list \<Rightarrow> string" where
  "joinComma [] = []"
| "joinComma [x] = x"
| "joinComma (x # y # ys) = x @ '','' @ joinComma (y # ys)"

text \<open>\<open>String(v)\<close>; an array is its elements joined by commas, with \<open>null\<close> and
  \<open>undefined\<close> elements as empty text.\<close>

fun String_js :: "JsVal \<Rightarrow> string" where
  "String_js Undefined = ''undefined''"
| "String_js Null = ''null''"
| "String_js (Str s) = s"
| "String_js (Other s) = s"
| "String_js (Arr xs) =
     joinComma (map (\<lambda>x. case x of Undefined \<Rightarrow> [] | Null \<Rightarrow> [] | _ \<Rightarrow> String_js x) xs)"

definition asString :: "JsVal \<Rightarrow> string" where
  "asString v = (case v of Null \<Rightarrow> [] | Undefined \<Rightarrow> [] | _ \<Rightarrow> String_js v)"

text \<open>
  \<open>JSON.parse\<close> is the parameter \<open>parse\<close>: \<open>None\<close> when it throws, the value it returns
  otherwise.
\<close>

definition parseJsonArray :: "(string \<Rightarrow> JsVal option) \<Rightarrow> JsVal \<Rightarrow> string list" where
  "parseJsonArray parse raw =
     (let s = trim (asString raw) in
      if s = [] then []
      else (case parse s of
              None \<Rightarrow> []
            | Some parsed \<Rightarrow> (case parsed of Arr xs \<Rightarrow> map asString xs | _ \<Rightarrow> [])))"

definition normalizeType :: "JsVal \<Rightarrow> QuestionType" where
  "normalizeType raw =
     (let t = trim (asString raw) in
      if t = ''Fill-in-the-blank'' then FillInTheBlank else MultipleChoice)"

text \<open>A row of the sheet: its cells by column name; a column the row lacks reads as
  \<open>undefined\<close>.\<close>

type_synonym RawRow = "(string \<times> JsVal) list"

definition cell :: "RawRow \<Rightarrow> string \<Rightarrow> JsVal" where
  "cell row k = (case map_of row k of None \<Rightarrow> Undefined | Some v \<Rightarrow> v)"

text \<open>\<open>s || undefined\<close>.\<close>

definition orUndefined :: "string \<Rightarrow> string option" where
  "orUndefined s = (if s = [] then None else Some s)"

text \<open>The body of the loop over the rows (lines 43 to 67): a row with an empty id is
  skipped, every other row is appended.\<close>

definition pushRow :: "(string \<Rightarrow> JsVal option) \<Rightarrow> Question list \<Rightarrow> RawRow \<Rightarrow> Question list" where
  "pushRow parse qs row =
     (let i = trim (asString (cell row ''id'')) in
      if i = [] then qs
      else
        (let question' = trim (asString (cell row ''Question''));
             chQuestion' = trim (asString (cell row ''Ch_Question''));
             questionType' = normalizeType (cell row ''Question_Type'');
             options' = parseJsonArray parse (cell row ''Options'');
             chOptions' = parseJsonArray parse (cell row ''Ch_Options'');
             answer' = trim (asString (cell row ''Answer''));
             image' = trim (asString (cell row ''Image''))
         in qs @ [\<lparr>id_q = i, question = orUndefined question',
                    chQuestion = orUndefined chQuestion', questionType = questionType',
                    options = options', chOptions = chOptions', answer = answer',
                    image_q = orUndefined image'\<rparr>]))"

text \<open>
  What the loader reads from outside: the fetch is rejected, or it answers with its
  \<open>ok\<close> flag, its status and a body; the body is a workbook, or \<open>None\<close> when reading
  it throws. A workbook is its sheet names and its sheets by name, each sheet as the
  rows that \<open>sheet_to_json\<close> gives for it.
\<close>

record Workbook =
  SheetNames :: "string list"
  Sheets :: "(string \<times> RawRow list) list"

datatype Fetched = Rejected | Response bool nat "Workbook option"

datatype LoadError =
  FetchRejected | FetchFailed nat | ReadFailed | NoSheets | FirstSheetMissing
  | NoQuestionsParsed

definition loadDatasetFromPublicXlsx ::
    "(string \<Rightarrow> JsVal option) \<Rightarrow> Fetched \<Rightarrow> LoadError + Question list" where
  "loadDatasetFromPublicXlsx parse res =
     (case res of
        Rejected \<Rightarrow> Inl FetchRejected
      | Response ok status body \<Rightarrow>
          if \<not> ok then Inl (FetchFailed status)
          else
            (case body of
               None \<Rightarrow> Inl ReadFailed
             | Some wb \<Rightarrow>
                 (case SheetNames wb of
                    [] \<Rightarrow> Inl NoSheets
                  | sheetName # _ \<Rightarrow>
                      if sheetName = [] then Inl NoSheets
                      else
                        (case map_of (Sheets wb) sheetName of
                           None \<Rightarrow> Inl FirstSheetMissing
                         | Some rows \<Rightarrow>
                             (let qs = foldl (pushRow parse) [] rows in
                              if length qs = 0 then Inl NoQuestionsParsed else Inr qs)))))"

text \<open>The ids of the valid rows of a sheet, in sheet order: the trimmed text of each
  row's id cell, where it is not empty.\<close>

definition validIds :: "RawRow list \<Rightarrow> string list" where
  "validIds rows = filter (\<lambda>i. i \<noteq> []) (map (\<lambda>row. trim (asString (cell row ''id''))) rows)"

section \<open>Notions of the specification and example data\<close>

text \<open>The number of unanswered questions: those whose in-memory answer is empty or
  white space only.\<close>

definition unansweredCount :: "Question list \<Rightarrow> (string \<rightharpoonup> string) \<Rightarrow> nat" where
  "unansweredCount qs ans = length (filter (\<lambda>q. blank (answerOf ans (id_q q))) qs)"


text \<open>A dataset of two questions and a session in the quiz view, in which the first
  question is answered and the second is not.\<close>

definition exQ1 :: Question where
  "exQ1 = \<lparr>id_q = ''1'', question = Some ''Pick one'', chQuestion = None,
     questionType = MultipleChoice, options = [''3'', ''4''], chOptions = [],
     answer = ''B'', image_q = None\<rparr>"

definition exQ2 :: Question where
  "exQ2 = \<lparr>id_q = ''2'', question = Some ''Next number'', chQuestion = None,
     questionType = FillInTheBlank, options = [], chOptions = [],
     answer = ''42'', image_q = None\<rparr>"

definition exMeta :: Meta where
  "exMeta = \<lparr>startedAt = Some 1000, submittedAt = None, view_m = Some Quiz,
     currentId_m = Some ''2'', reviewId_m = None\<rparr>"

definition exApp :: App where
  "exApp = \<lparr>questions = Some [exQ1, exQ2], view = Quiz, currentId = ''2'', reviewId = ''1'',
     answers = [''1'' \<mapsto> '' b ''], now = 5000,
     storage = \<lparr>meta_s = exMeta, answers_s = [''1'' \<mapsto> '' b '']\<rparr>\<rparr>"

text \<open>A workbook whose first sheet has a row for each example question and, between
  them, a row with a blank id; the one text that \<open>JSON.parse\<close> is given; and the
  persisted state of a session whose stored pointer names no question.\<close>

definition exRow1 :: RawRow where
  "exRow1 = [(''id'', Other ''1''), (''Question'', Str ''Pick one''),
     (''Question_Type'', Str ''Multiple Choice''), (''Options'', Str ''[3,4]''),
     (''Answer'', Str '' B'')]"

definition exRow2 :: RawRow where
  "exRow2 = [(''id'', Str ''2 ''), (''Question'', Str ''Next number''),
     (''Question_Type'', Str ''Fill-in-the-blank''), (''Answer'', Other ''42'')]"

definition exRowBlank :: RawRow where
  "exRowBlank = [(''id'', Str ''  ''), (''Answer'', Str ''A'')]"

definition exParse :: "string \<Rightarrow> JsVal option" where
  "exParse = [''[3,4]'' \<mapsto> Arr [Other ''3'', Other ''4'']]"

definition exFetched :: Fetched where
  "exFetched =
     Response True 200
       (Some \<lparr>SheetNames = [''Sheet1''],
              Sheets = [(''Sheet1'', [exRow1, exRowBlank, exRow2])]\<rparr>)"

definition exNoRows :: Fetched where
  "exNoRows =
     Response True 200
       (Some \<lparr>SheetNames = [''Sheet1''], Sheets = [(''Sheet1'', [exRowBlank])]\<rparr>)"

text \<open>The same workbook with the second row given the id of the first.\<close>

definition exRowDup :: RawRow where
  "exRowDup = [(''id'', Str '' 1 ''), (''Question'', Str ''Next number''),
     (''Question_Type'', Str ''Fill-in-the-blank''), (''Answer'', Other ''42'')]"

definition exDuplicates :: Fetched where
  "exDuplicates =
     Response True 200
       (Some \<lparr>SheetNames = [''Sheet1''], Sheets = [(''Sheet1'', [exRow1, exRowDup])]\<rparr>)"

definition exStale :: App where
  "exStale = \<lparr>questions = None, view = Start, currentId = [], reviewId = [],
     answers = Map.empty, now = 5000,
     storage = \<lparr>meta_s = exMeta\<lparr>currentId_m := Some ''17'', reviewId_m := Some ''1''\<rparr>,
                 answers_s = [''1'' \<mapsto> '' b '']\<rparr>\<rparr>"

text \<open>The example session after it was submitted at the instant 2000.\<close>

definition exSubmitted :: App where
  "exSubmitted = \<lparr>questions = Some [exQ1, exQ2], view = Result, currentId = ''2'',
     reviewId = ''2'', answers = [''1'' \<mapsto> '' b ''], now = 5000,
     storage = \<lparr>meta_s = \<lparr>startedAt = Some 1000, submittedAt = Some 2000,
                            view_m = Some Result, currentId_m = Some ''2'',
                            reviewId_m = Some ''2''\<rparr>,
                 answers_s = [''1'' \<mapsto> '' b '']\<rparr>\<rparr>"

text \<open>The submitted session after the user went back to the quiz at the instant 3000.\<close>

definition exContinued :: App where
  "exContinued = exSubmitted\<lparr>view := Quiz,
     storage := \<lparr>meta_s = \<lparr>startedAt = Some 1000, submittedAt = Some 2000,
                            view_m = Some Quiz, currentId_m = Some ''2'',
                            reviewId_m = Some ''2''\<rparr>,
                 answers_s = [''1'' \<mapsto> '' b '']\<rparr>\<rparr>"

section \<open>Properties of trimming and of the change of case\<close>

lemma dropWhile_all_iff: "(\<forall>x\<in>set (dropWhile P s). P x) \<longleftrightarrow> (\<forall>x\<in>set s. P x)"
proof
  assume h: "\<forall>x\<in>set (dropWhile P s). P x"
  have "dropWhile P s = []"
  proof (rule ccontr)
    assume n: "dropWhile P s \<noteq> []"
    then have "\<not> P (hd (dropWhile P s))" by (rule hd_dropWhile)
    moreover have "hd (dropWhile P s) \<in> set (dropWhile P s)" using n by simp
    ultimately show False using h by blast
  qed
  then show "\<forall>x\<in>set s. P x" by (simp add: dropWhile_eq_Nil_conv)
qed (blast dest: set_dropWhileD)

lemma trim_Nil_iff: "trim s = [] \<longleftrightarrow> blank s"
  by (simp add: trim_def trimEnd_def trimStart_def blank_def list_all_iff
      dropWhile_eq_Nil_conv dropWhile_all_iff)














section \<open>Scoring one answer\<close>




section \<open>Submitting\<close>

lemma unanswered_filter:
  "filter (\<lambda>q. trim (answerOf ans (id_q q)) = []) qs
   = filter (\<lambda>q. blank (answerOf ans (id_q q))) qs"
  by (simp add: trim_Nil_iff)

text \<open>
  Claim C1. \<open>submit\<close> with a loaded dataset: when no question is unanswered, no
  confirmation is shown; when \<open>n > 0\<close> questions are unanswered (answer empty or white
  space only), the confirmation names exactly \<open>n\<close>; when the user declines, the whole
  state, the view and the persisted metadata included, is unchanged; when the user
  confirms, or when nothing is unanswered, \<open>submittedAt\<close> becomes the clock reading,
  the view becomes \<open>result\<close> and \<open>reviewId\<close> becomes the current \<open>currentId\<close>, in memory
  and in the persisted metadata.
\<close>

theorem submit_guard:
  assumes "questions st = Some qs"
  shows "(unansweredCount qs (answers st) = 0 \<longrightarrow> fst (submit ok t st) = None)
    \<and> (0 < unansweredCount qs (answers st) \<longrightarrow>
          fst (submit ok t st) = Some (unansweredCount qs (answers st)))
    \<and> (0 < unansweredCount qs (answers st) \<and> \<not> ok \<longrightarrow> snd (submit ok t st) = st)
    \<and> (unansweredCount qs (answers st) = 0 \<or> ok \<longrightarrow>
          view (snd (submit ok t st)) = Result
          \<and> reviewId (snd (submit ok t st)) = currentId st
          \<and> currentId (snd (submit ok t st)) = currentId st
          \<and> submittedAt (loadMeta (storage (snd (submit ok t st)))) = Some t
          \<and> view_m (loadMeta (storage (snd (submit ok t st)))) = Some Result
          \<and> reviewId_m (loadMeta (storage (snd (submit ok t st)))) = Some (currentId st))"
  using assms
  by (simp add: submit_def unansweredCount_def unanswered_filter Let_def loadMeta_def
      saveMeta_def)

text \<open>In the example session one question is unanswered: declining changes nothing,
  confirming submits; once the second question is answered no confirmation is shown.\<close>

theorem submit_guard_witness:
  "questions exApp = Some [exQ1, exQ2]
   \<and> unansweredCount [exQ1, exQ2] (answers exApp) = 1
   \<and> submit False 9000 exApp = (Some 1, exApp)
   \<and> fst (submit True 9000 exApp) = Some 1
   \<and> view (snd (submit True 9000 exApp)) = Result
   \<and> reviewId (snd (submit True 9000 exApp)) = ''2''
   \<and> submittedAt (loadMeta (storage (snd (submit True 9000 exApp)))) = Some 9000
   \<and> fst (submit False 9000 (updateAnswer ''2'' ''42'' exApp)) = None
   \<and> view (snd (submit False 9000 (updateAnswer ''2'' ''42'' exApp))) = Result"
proof -
  have q: "questions exApp = Some [exQ1, exQ2]"
    by (simp add: exApp_def)
  have q': "questions (updateAnswer ''2'' ''42'' exApp) = Some [exQ1, exQ2]"
    by (simp add: exApp_def updateAnswer_def)
  have n: "unansweredCount [exQ1, exQ2] (answers exApp) = 1"
    by (simp add: unansweredCount_def exApp_def exQ1_def exQ2_def answerOf_def blank_def
        isWhiteSpace_def)
  have n': "unansweredCount [exQ1, exQ2] (answers (updateAnswer ''2'' ''42'' exApp)) = 0"
    by (simp add: unansweredCount_def exApp_def exQ1_def exQ2_def answerOf_def blank_def
        isWhiteSpace_def updateAnswer_def)
  show ?thesis
    using submit_guard [OF q, of False 9000] submit_guard [OF q, of True 9000]
      submit_guard [OF q', of False 9000] q n n'
    by (simp add: prod_eq_iff exApp_def)
qed

section \<open>The loader\<close>

lemma pushRow_ids: "map id_q (pushRow parse qs row) = map id_q qs @ validIds [row]"
  by (simp add: pushRow_def validIds_def Let_def)

lemma validIds_Cons: "validIds (row # rows) = validIds [row] @ validIds rows"
  by (simp add: validIds_def)

lemma foldl_pushRow_ids:
  "map id_q (foldl (pushRow parse) qs rows) = map id_q qs @ validIds rows"
proof (induction rows arbitrary: qs)
  case Nil
  show ?case by (simp add: validIds_def)
next
  case (Cons row rows)
  show ?case by (simp add: Cons.IH pushRow_ids validIds_Cons [of row rows])
qed

lemma validIds_nonempty: "i \<in> set (validIds rows) \<Longrightarrow> i \<noteq> []"
  by (auto simp: validIds_def)

lemma loader_Inr:
  assumes "loadDatasetFromPublicXlsx parse res = Inr qs"
  shows "\<exists>status wb name rest rows.
           res = Response True status (Some wb) \<and> SheetNames wb = name # rest \<and> name \<noteq> []
           \<and> map_of (Sheets wb) name = Some rows \<and> map id_q qs = validIds rows \<and> qs \<noteq> []"
  using assms foldl_pushRow_ids [of parse "[]"]
  by (auto simp: loadDatasetFromPublicXlsx_def Let_def
      split: Fetched.splits if_splits option.splits list.splits)

lemma loader_ids_nonempty:
  assumes "loadDatasetFromPublicXlsx parse res = Inr qs"
  shows "qs \<noteq> [] \<and> (\<forall>q\<in>set qs. id_q q \<noteq> [])"
proof -
  from loader_Inr [OF assms] obtain rows
    where r: "map id_q qs = validIds rows" and n: "qs \<noteq> []"
    by blast
  have "id_q q \<noteq> []" if "q \<in> set qs" for q
  proof -
    from that have "id_q q \<in> set (map id_q qs)" by simp
    then show ?thesis using r validIds_nonempty by metis
  qed
  with n show ?thesis by blast
qed

lemma exFetched_loads: "loadDatasetFromPublicXlsx exParse exFetched = Inr [exQ1, exQ2]"
  by (simp add: loadDatasetFromPublicXlsx_def exFetched_def pushRow_def Let_def exRow1_def
      exRow2_def exRowBlank_def exQ1_def exQ2_def exParse_def cell_def asString_def trim_def
      trimEnd_def trimStart_def isWhiteSpace_def normalizeType_def parseJsonArray_def
      orUndefined_def)

lemma exDuplicates_loads:
  "loadDatasetFromPublicXlsx exParse exDuplicates = Inr [exQ1, exQ2\<lparr>id_q := ''1''\<rparr>]"
  by (simp add: loadDatasetFromPublicXlsx_def exDuplicates_def pushRow_def Let_def exRow1_def
      exRowDup_def exQ1_def exQ2_def exParse_def cell_def asString_def trim_def
      trimEnd_def trimStart_def isWhiteSpace_def normalizeType_def parseJsonArray_def
      orUndefined_def)

lemma exNoRows_valid: "validIds [exRowBlank] = []"
  by (simp add: validIds_def exRowBlank_def cell_def asString_def trim_def trimEnd_def
      trimStart_def isWhiteSpace_def)

text \<open>
  Claim C4, as the loader has it. When the loader returns a list, the list is not
  empty, every id in it is non-empty, and the ids are, in sheet order, exactly the
  trimmed non-empty id cells of the rows of the first sheet: a row is kept for its id
  alone, so two rows with one id give two records with that id, and the ids of the
  list are pairwise different exactly when those of the sheet are. When the first sheet
  is read and none of its rows has a non-empty id, the loader returns the one error
  \<open>NoQuestionsParsed\<close> and no list.
\<close>

theorem loader_ids:
  "(loadDatasetFromPublicXlsx parse res = Inr qs \<longrightarrow>
      qs \<noteq> [] \<and> list_all (\<lambda>q. id_q q \<noteq> []) qs
      \<and> (\<exists>status wb name rest rows.
            res = Response True status (Some wb) \<and> SheetNames wb = name # rest
            \<and> map_of (Sheets wb) name = Some rows \<and> map id_q qs = validIds rows
            \<and> distinct (map id_q qs) = distinct (validIds rows)))
   \<and> (res = Response True status (Some wb) \<and> SheetNames wb = name # rest \<and> name \<noteq> []
        \<and> map_of (Sheets wb) name = Some rows \<and> validIds rows = [] \<longrightarrow>
      loadDatasetFromPublicXlsx parse res = Inl NoQuestionsParsed)"
proof (intro conjI impI)
  assume a: "loadDatasetFromPublicXlsx parse res = Inr qs"
  from loader_ids_nonempty [OF a] show "qs \<noteq> []" by simp
  from loader_ids_nonempty [OF a] show "list_all (\<lambda>q. id_q q \<noteq> []) qs"
    by (simp add: list_all_iff)
  from loader_Inr [OF a] obtain status' wb' name' rest' rows'
    where "res = Response True status' (Some wb')" "SheetNames wb' = name' # rest'"
      "map_of (Sheets wb') name' = Some rows'" "map id_q qs = validIds rows'"
    by blast
  then show "\<exists>status wb name rest rows.
            res = Response True status (Some wb) \<and> SheetNames wb = name # rest
            \<and> map_of (Sheets wb) name = Some rows \<and> map id_q qs = validIds rows
            \<and> distinct (map id_q qs) = distinct (validIds rows)"
    by simp
next
  assume b: "res = Response True status (Some wb) \<and> SheetNames wb = name # rest \<and> name \<noteq> []
        \<and> map_of (Sheets wb) name = Some rows \<and> validIds rows = []"
  have "map id_q (foldl (pushRow parse) [] rows) = []"
    using b foldl_pushRow_ids [of parse "[]" rows] by simp
  then have "foldl (pushRow parse) [] rows = []" by simp
  with b show "loadDatasetFromPublicXlsx parse res = Inl NoQuestionsParsed"
    by (simp add: loadDatasetFromPublicXlsx_def)
qed

text \<open>The example workbook loads as the two example questions; the sheet whose only
  row has a blank id gives the error.\<close>

theorem loader_ids_witness:
  "loadDatasetFromPublicXlsx exParse exFetched = Inr [exQ1, exQ2]
   \<and> list_all (\<lambda>q. id_q q \<noteq> []) [exQ1, exQ2]
   \<and> exNoRows = Response True 200
        (Some \<lparr>SheetNames = [''Sheet1''], Sheets = [(''Sheet1'', [exRowBlank])]\<rparr>)
   \<and> validIds [exRowBlank] = []
   \<and> loadDatasetFromPublicXlsx exParse exNoRows = Inl NoQuestionsParsed"
  using loader_ids [where parse = exParse and res = exFetched and qs = "[exQ1, exQ2]"]
    loader_ids [where parse = exParse and res = exNoRows and status = 200
      and wb = "\<lparr>SheetNames = [''Sheet1''], Sheets = [(''Sheet1'', [exRowBlank])]\<rparr>"
      and name = "''Sheet1''" and rest = "[]" and rows = "[exRowBlank]"]
    exFetched_loads exNoRows_valid
  by (simp add: exNoRows_def)

text \<open>The claim as it was stated asks for pairwise different ids. The loader does not
  look for duplicates: of the workbook whose two rows both have the id 1 it returns both
  records.\<close>

theorem loader_duplicate_ids:
  "loadDatasetFromPublicXlsx exParse exDuplicates = Inr [exQ1, exQ2\<lparr>id_q := ''1''\<rparr>]
   \<and> id_q exQ1 = id_q (exQ2\<lparr>id_q := ''1''\<rparr>)
   \<and> \<not> distinct (map id_q [exQ1, exQ2\<lparr>id_q := ''1''\<rparr>])"
  using exDuplicates_loads by (simp add: exQ1_def)

section \<open>Initialisation\<close>

lemma resolveId_eq:
  assumes "\<forall>q\<in>set qs. id_q q \<noteq> []"
  shows "resolveId stored qs fallback =
           (case stored of
              None \<Rightarrow> fallback
            | Some i \<Rightarrow> if i \<in> id_q ` set qs then i else fallback)"
  using assms by (auto simp: resolveId_def list_ex_iff split: option.splits)

lemma resolveId_in:
  "fallback \<in> id_q ` set qs \<Longrightarrow> resolveId stored qs fallback \<in> id_q ` set qs"
  by (auto simp: resolveId_def list_ex_iff split: option.splits)

text \<open>
  Claim C2. \<open>initialize\<close>, run on a dataset that the loader returned (so it is not
  empty) and on any persisted metadata: the resolved \<open>currentId\<close> is the persisted one
  when that is set and is the id of a loaded question, and the id of the first loaded
  question otherwise; the resolved \<open>reviewId\<close> is the persisted one when that is set
  and is the id of a loaded question, and the resolved \<open>currentId\<close> otherwise; both
  resolved pointers are ids of loaded questions. \<open>initialize\<close> is a total function: it
  has no failing branch.
\<close>

theorem initialize_pointers:
  assumes "loadDatasetFromPublicXlsx parse res = Inr qs"
  shows "qs \<noteq> []
    \<and> questions (initialize qs st) = Some qs
    \<and> currentId (initialize qs st) =
        (case currentId_m (loadMeta (storage st)) of
           None \<Rightarrow> id_q (hd qs)
         | Some c \<Rightarrow> if c \<in> id_q ` set qs then c else id_q (hd qs))
    \<and> reviewId (initialize qs st) =
        (case reviewId_m (loadMeta (storage st)) of
           None \<Rightarrow> currentId (initialize qs st)
         | Some r \<Rightarrow> if r \<in> id_q ` set qs then r else currentId (initialize qs st))
    \<and> currentId (initialize qs st) \<in> id_q ` set qs
    \<and> reviewId (initialize qs st) \<in> id_q ` set qs"
proof -
  from loader_ids_nonempty [OF assms]
  have ne: "qs \<noteq> []" and ids: "\<forall>q\<in>set qs. id_q q \<noteq> []" by simp_all
  from ne obtain q0 rest where qs: "qs = q0 # rest" by (cases qs) auto
  have fb: "(case qs of [] \<Rightarrow> [] | q # _ \<Rightarrow> id_q q) = id_q (hd qs)"
    by (simp add: qs)
  have hd_in: "id_q (hd qs) \<in> id_q ` set qs" by (simp add: qs)
  have c: "currentId (initialize qs st)
           = resolveId (currentId_m (loadMeta (storage st))) qs (id_q (hd qs))"
    by (simp add: initialize_def Let_def fb)
  have r: "reviewId (initialize qs st)
           = resolveId (reviewId_m (loadMeta (storage st))) qs (currentId (initialize qs st))"
    by (simp add: initialize_def Let_def fb)
  have c_in: "currentId (initialize qs st) \<in> id_q ` set qs"
    unfolding c by (rule resolveId_in [OF hd_in])
  have r_in: "reviewId (initialize qs st) \<in> id_q ` set qs"
    unfolding r by (rule resolveId_in [OF c_in])
  have q: "questions (initialize qs st) = Some qs"
    by (simp add: initialize_def Let_def)
  have c': "currentId (initialize qs st) =
        (case currentId_m (loadMeta (storage st)) of
           None \<Rightarrow> id_q (hd qs)
         | Some c \<Rightarrow> if c \<in> id_q ` set qs then c else id_q (hd qs))"
    unfolding c by (rule resolveId_eq [OF ids])
  have r': "reviewId (initialize qs st) =
        (case reviewId_m (loadMeta (storage st)) of
           None \<Rightarrow> currentId (initialize qs st)
         | Some r \<Rightarrow> if r \<in> id_q ` set qs then r else currentId (initialize qs st))"
    by (subst r) (rule resolveId_eq [OF ids])
  from ne q c' r' c_in r_in show ?thesis by blast
qed

text \<open>With the example dataset: the stored pointer 17 names no question, so the
  resolved \<open>currentId\<close> is the id of the first question, and the stored \<open>reviewId\<close> 1 is
  kept; in the example session the stored \<open>currentId\<close> 2 is kept and the absent
  \<open>reviewId\<close> becomes it.\<close>

theorem initialize_pointers_witness:
  "loadDatasetFromPublicXlsx exParse exFetched = Inr [exQ1, exQ2]
   \<and> currentId_m (loadMeta (storage exStale)) = Some ''17''
   \<and> currentId (initialize [exQ1, exQ2] exStale) = ''1''
   \<and> reviewId (initialize [exQ1, exQ2] exStale) = ''1''
   \<and> currentId (initialize [exQ1, exQ2] exApp) = ''2''
   \<and> reviewId (initialize [exQ1, exQ2] exApp) = ''2''"
  using initialize_pointers [OF exFetched_loads, of exStale]
    initialize_pointers [OF exFetched_loads, of exApp] exFetched_loads
  by (simp add: exStale_def exApp_def exMeta_def exQ1_def exQ2_def loadMeta_def)

section \<open>Writing the metadata\<close>



lemma exSubmitted_reached: "snd (submit True 2000 exApp) = exSubmitted"
  by (simp add: submit_def exApp_def exSubmitted_def exMeta_def Let_def loadMeta_def
      saveMeta_def numberOr_def)




section \<open>Answers\<close>

lemma foldl_empty_answers:
  "foldl (\<lambda>init q. init(id_q q \<mapsto> [])) m qs i
   = (if i \<in> id_q ` set qs then Some [] else m i)"
  by (induction qs arbitrary: m) auto

lemma emptyAnswers_at: "q \<in> set qs \<Longrightarrow> emptyAnswers qs (id_q q) = Some []"
  by (simp add: emptyAnswers_def foldl_empty_answers)

lemma foldl_setAnswer_meta:
  "meta_s (foldl (\<lambda>s q. setAnswer (f q) [] s) sto qs) = meta_s sto"
  by (induction qs arbitrary: sto) (simp_all add: setAnswer_def)

lemma foldl_setAnswer_answers:
  "answers_s (foldl (\<lambda>s q. setAnswer (f q) [] s) sto qs) i
   = (if i \<in> f ` set qs then Some [] else answers_s sto i)"
  by (induction qs arbitrary: sto) (auto simp: setAnswer_def)

lemma clearAll_meta: "loadMeta (clearAll ids sto) = loadMeta sto"
  by (simp add: clearAll_def loadMeta_def foldl_setAnswer_meta)

lemma clearAll_getAnswer: "i \<in> set ids \<Longrightarrow> getAnswer i (clearAll ids sto) = []"
  using foldl_setAnswer_answers [of "\<lambda>i. i" sto ids i]
  by (simp add: clearAll_def getAnswer_def)

text \<open>
  Claim C7. \<open>startNew\<close>, from any state whose loaded dataset is not empty, returns a
  state in which every question's in-memory answer and stored answer is the empty
  string, the persisted \<open>startedAt\<close> is the clock reading, the view is \<open>quiz\<close>,
  \<open>currentId\<close> and \<open>reviewId\<close> are the id of the first question, in memory and in the
  persisted metadata, and \<open>submittedAt\<close> is absent from the persisted metadata.
\<close>

theorem startNew_resets:
  assumes "questions st = Some (q0 # rest)"
  shows "\<exists>st'. startNew t st = Inr st'
    \<and> (\<forall>q\<in>set (q0 # rest).
          answers st' (id_q q) = Some [] \<and> getAnswer (id_q q) (storage st') = [])
    \<and> startedAt (loadMeta (storage st')) = Some t
    \<and> submittedAt (loadMeta (storage st')) = None
    \<and> view st' = Quiz \<and> view_m (loadMeta (storage st')) = Some Quiz
    \<and> currentId st' = id_q q0 \<and> reviewId st' = id_q q0
    \<and> currentId_m (loadMeta (storage st')) = Some (id_q q0)
    \<and> reviewId_m (loadMeta (storage st')) = Some (id_q q0)"
proof -
  define st' where "st' =
    st\<lparr>storage :=
          saveMeta \<lparr>startedAt = Some t, submittedAt = None, view_m = Some Quiz,
                    currentId_m = Some (id_q q0), reviewId_m = Some (id_q q0)\<rparr>
            (clearAll (map id_q (q0 # rest)) (storage st)),
        answers := emptyAnswers (q0 # rest),
        currentId := id_q q0, reviewId := id_q q0, view := Quiz\<rparr>"
  have run: "startNew t st = Inr st'"
    using assms by (simp add: startNew_def st'_def Let_def)
  have mem: "answers st' (id_q q) = Some []" if "q \<in> set (q0 # rest)" for q
    using emptyAnswers_at [OF that] by (simp add: st'_def)
  have sto: "getAnswer (id_q q) (storage st') = []" if "q \<in> set (q0 # rest)" for q
  proof -
    from that have "id_q q \<in> set (map id_q (q0 # rest))" by auto
    from clearAll_getAnswer [OF this, of "storage st"] show ?thesis
      by (simp add: st'_def saveMeta_def getAnswer_def)
  qed
  have m: "loadMeta (storage st') =
             \<lparr>startedAt = Some t, submittedAt = None, view_m = Some Quiz,
              currentId_m = Some (id_q q0), reviewId_m = Some (id_q q0)\<rparr>"
    by (simp add: st'_def loadMeta_def saveMeta_def)
  have v: "view st' = Quiz" "currentId st' = id_q q0" "reviewId st' = id_q q0"
    by (simp_all add: st'_def)
  from run mem sto m v show ?thesis by simp
qed

text \<open>From the submitted example session, whose first question is answered.\<close>

theorem startNew_resets_witness:
  "questions exSubmitted = Some (exQ1 # [exQ2])
   \<and> getAnswer ''1'' (storage exSubmitted) = '' b ''
   \<and> (\<exists>st'. startNew 9000 exSubmitted = Inr st'
         \<and> answers st' ''1'' = Some [] \<and> getAnswer ''1'' (storage st') = []
         \<and> answers st' ''2'' = Some [] \<and> getAnswer ''2'' (storage st') = []
         \<and> view st' = Quiz \<and> currentId st' = ''1'' \<and> reviewId st' = ''1''
         \<and> startedAt (loadMeta (storage st')) = Some 9000
         \<and> submittedAt (loadMeta (storage st')) = None)"
proof -
  have q: "questions exSubmitted = Some (exQ1 # [exQ2])"
    by (simp add: exSubmitted_def)
  have g: "getAnswer ''1'' (storage exSubmitted) = '' b ''"
    by (simp add: exSubmitted_def getAnswer_def)
  have ids: "id_q exQ1 = ''1''" "id_q exQ2 = ''2''"
    by (simp_all add: exQ1_def exQ2_def)
  from startNew_resets [OF q, of 9000] q g show ?thesis
    by (auto simp: ids)
qed

text \<open>
  Claim C9. \<open>clearAnswers\<close> with a loaded dataset: when the user declines, the state
  is unchanged; when the user confirms, every question's in-memory answer and stored
  answer is the empty string, and the persisted metadata (with it \<open>startedAt\<close> and
  \<open>submittedAt\<close>), the view, \<open>currentId\<close>, \<open>reviewId\<close>, the questions and the clock
  reading are as before.
\<close>

theorem clearAnswers_frame:
  assumes "questions st = Some qs"
  shows "clearAnswers False st = st
    \<and> (\<forall>q\<in>set qs. answers (clearAnswers True st) (id_q q) = Some []
                  \<and> getAnswer (id_q q) (storage (clearAnswers True st)) = [])
    \<and> loadMeta (storage (clearAnswers True st)) = loadMeta (storage st)
    \<and> view (clearAnswers True st) = view st
    \<and> currentId (clearAnswers True st) = currentId st
    \<and> reviewId (clearAnswers True st) = reviewId st
    \<and> questions (clearAnswers True st) = questions st
    \<and> now (clearAnswers True st) = now st"
proof -
  have d: "clearAnswers False st = st"
    using assms by (simp add: clearAnswers_def)
  have c: "clearAnswers True st =
             st\<lparr>storage := foldl (\<lambda>s q. setAnswer (id_q q) [] s) (storage st) qs,
                answers := emptyAnswers qs\<rparr>"
    using assms by (simp add: clearAnswers_def)
  have a: "answers (clearAnswers True st) (id_q q) = Some []
           \<and> getAnswer (id_q q) (storage (clearAnswers True st)) = []"
    if "q \<in> set qs" for q
    using that emptyAnswers_at [OF that] foldl_setAnswer_answers [of id_q "storage st" qs "id_q q"]
    by (simp add: c getAnswer_def)
  have m: "loadMeta (storage (clearAnswers True st)) = loadMeta (storage st)"
    by (simp add: c loadMeta_def foldl_setAnswer_meta)
  from d a m show ?thesis by (simp add: c)
qed

text \<open>In the example session the stored answer of question 1 is cleared, and the
  persisted metadata stays the example record.\<close>

theorem clearAnswers_frame_witness:
  "questions exApp = Some [exQ1, exQ2]
   \<and> getAnswer ''1'' (storage exApp) = '' b ''
   \<and> clearAnswers False exApp = exApp
   \<and> answers (clearAnswers True exApp) ''1'' = Some []
   \<and> getAnswer ''1'' (storage (clearAnswers True exApp)) = []
   \<and> answers (clearAnswers True exApp) ''2'' = Some []
   \<and> loadMeta (storage (clearAnswers True exApp)) = exMeta
   \<and> view (clearAnswers True exApp) = Quiz
   \<and> currentId (clearAnswers True exApp) = ''2''"
proof -
  have q: "questions exApp = Some [exQ1, exQ2]"
    by (simp add: exApp_def)
  have g: "getAnswer ''1'' (storage exApp) = '' b ''"
    by (simp add: exApp_def getAnswer_def)
  have ids: "id_q exQ1 = ''1''" "id_q exQ2 = ''2''"
    by (simp_all add: exQ1_def exQ2_def)
  have o: "loadMeta (storage exApp) = exMeta" "view exApp = Quiz" "currentId exApp = ''2''"
    by (simp_all add: exApp_def loadMeta_def)
  from clearAnswers_frame [OF q] q g show ?thesis
    by (simp add: ids o)
qed

text \<open>
  Claim C10. For every question id \<open>i\<close>, answer text \<open>v\<close> and state, \<open>updateAnswer i v\<close>
  makes \<open>v\<close> the answer of \<open>i\<close> in the in-memory answer map and in the persisted answer
  store, and leaves the answer of every other id \<open>j\<close> as it was in both; the persisted
  metadata is not written.
\<close>

theorem updateAnswer_frame:
  "answers (updateAnswer i v st) i = Some v
   \<and> getAnswer i (storage (updateAnswer i v st)) = v
   \<and> (j \<noteq> i \<longrightarrow>
        answers (updateAnswer i v st) j = answers st j
        \<and> answers_s (storage (updateAnswer i v st)) j = answers_s (storage st) j
        \<and> getAnswer j (storage (updateAnswer i v st)) = getAnswer j (storage st))
   \<and> loadMeta (storage (updateAnswer i v st)) = loadMeta (storage st)"
  by (simp add: updateAnswer_def setAnswer_def getAnswer_def loadMeta_def)

text \<open>Answering question 2 in the example session leaves the answer of question 1.\<close>

theorem updateAnswer_frame_witness:
  "''1'' \<noteq> ''2''
   \<and> answers (updateAnswer ''2'' ''42'' exApp) ''2'' = Some ''42''
   \<and> getAnswer ''2'' (storage (updateAnswer ''2'' ''42'' exApp)) = ''42''
   \<and> answers (updateAnswer ''2'' ''42'' exApp) ''1'' = Some '' b ''
   \<and> getAnswer ''1'' (storage (updateAnswer ''2'' ''42'' exApp)) = '' b ''"
  using updateAnswer_frame [of "''2''" "''42''" exApp "''1''"]
  by (simp add: exApp_def getAnswer_def)

section \<open>Elapsed time\<close>

text \<open>
  Claim C8, as \<open>elapsedMs\<close> has it. The elapsed time is never negative and, for a
  fixed state, never decreases as the clock advances. With \<open>startedAt\<close> set (and not
  0): while the view is not \<open>result\<close> it is \<open>max 0 (now - startedAt)\<close>, whether or not
  \<open>submittedAt\<close> is set; when the view is \<open>result\<close> and \<open>submittedAt\<close> is set (and not
  0) it is \<open>max 0 (submittedAt - startedAt)\<close>, the same for every clock reading.
  Without \<open>startedAt\<close>, or with \<open>startedAt\<close> 0, it is 0.
\<close>

theorem elapsedMs_frozen_in_result:
  "0 \<le> elapsedMs started submitted v n
   \<and> (n \<le> n' \<longrightarrow> elapsedMs started submitted v n \<le> elapsedMs started submitted v n')
   \<and> (s \<noteq> 0 \<and> v \<noteq> Result \<longrightarrow> elapsedMs (Some s) submitted v n = max 0 (n - s))
   \<and> (s \<noteq> 0 \<and> u \<noteq> 0 \<longrightarrow>
        elapsedMs (Some s) (Some u) Result n = max 0 (u - s)
        \<and> elapsedMs (Some s) (Some u) Result n' = elapsedMs (Some s) (Some u) Result n)
   \<and> elapsedMs None submitted v n = 0
   \<and> elapsedMs (Some 0) submitted v n = 0"
  by (auto simp: elapsedMs_def split: option.splits)

text \<open>Started at 1000 and submitted at 2000: in the result view the elapsed time is 1000
  at the clock readings 5000 and 6000; started at 1000 and not submitted, it is 4000 at
  5000.\<close>

theorem elapsedMs_frozen_in_result_witness:
  "(5000 :: int) \<le> 6000 \<and> (1000 :: int) \<noteq> 0 \<and> (2000 :: int) \<noteq> 0 \<and> Quiz \<noteq> Result
   \<and> elapsedMs (Some 1000) (Some 2000) Result 5000 = 1000
   \<and> elapsedMs (Some 1000) (Some 2000) Result 6000 = 1000
   \<and> elapsedMs (Some 1000) None Quiz 5000 = 4000"
  using elapsedMs_frozen_in_result [of "Some 1000" "Some 2000" Result 5000 6000 1000 2000]
    elapsedMs_frozen_in_result [of "Some 1000" None Quiz 5000 6000 1000 2000]
  by simp

text \<open>The claim as it was stated freezes the elapsed time once \<open>submittedAt\<close> is set.
  The source freezes it in the result view only: the example session, submitted at
  2000 and then continued at 3000, is in the quiz view with \<open>submittedAt\<close> still 2000,
  and its elapsed time is 4000 at the clock reading 5000 and 5000 at 6000, not the 1000
  between start and submission. Also a \<open>startedAt\<close> of 0 counts as not started.\<close>

theorem elapsedMs_ticks_after_continue:
  "snd (submit True 2000 exApp) = exSubmitted
   \<and> continueQuiz 3000 exSubmitted = Inr exContinued
   \<and> startedAt (loadMeta (storage exContinued)) = Some 1000
   \<and> submittedAt (loadMeta (storage exContinued)) = Some 2000
   \<and> elapsedMs_of (exContinued\<lparr>now := 5000\<rparr>) = 4000
   \<and> elapsedMs_of (exContinued\<lparr>now := 6000\<rparr>) = 5000
   \<and> elapsedMs_of (exContinued\<lparr>now := 5000\<rparr>) \<noteq> max 0 (2000 - 1000)
   \<and> elapsedMs_of (exContinued\<lparr>now := 6000\<rparr>) \<noteq> elapsedMs_of (exContinued\<lparr>now := 5000\<rparr>)
   \<and> elapsedMs (Some 0) None Quiz 5000 = 0
   \<and> elapsedMs (Some 0) None Quiz 5000 \<noteq> max 0 (5000 - 0)"
proof -
  have c: "continueQuiz 3000 exSubmitted = Inr exContinued"
    by (simp add: continueQuiz_def exContinued_def exSubmitted_def Let_def persistMeta_def
        loadMeta_def saveMeta_def spread_def orElse_def noFields_def numberOr_def
        resolveId_def exQ1_def exQ2_def)
  have e: "elapsedMs_of (exContinued\<lparr>now := 5000\<rparr>) = 4000"
    "elapsedMs_of (exContinued\<lparr>now := 6000\<rparr>) = 5000"
    by (simp_all add: elapsedMs_of_def elapsedMs_def exContinued_def exSubmitted_def
        loadMeta_def)
  have m: "startedAt (loadMeta (storage exContinued)) = Some 1000"
    "submittedAt (loadMeta (storage exContinued)) = Some 2000"
    by (simp_all add: exContinued_def loadMeta_def)
  have z: "elapsedMs (Some 0) None Quiz 5000 = 0"
    by (simp add: elapsedMs_def)
  from exSubmitted_reached c e m z show ?thesis by simp
qed

section \<open>Score and percentage\<close>





text \<open>The arithmetic is that of doubles: 201 of 400 is 50.25 percent, the product
  computed for it lies just below 502.5, and the percentage is the double written 50.2.\<close>

lemma percent_201_400: "percent (201, 400) = binary64 (502 / 10)"
  by code_simp



end
